theory Spec2Isabelle
  imports Main "HOL-Library.Word" "HOL-Library.Sublist"
begin

section \<open>Data model\<close>

text \<open>
  The registry package of kratos-redis (registry.go, watcher.go): a service registry over a
  remote key-value store. \<open>time.Duration\<close> is a signed 64-bit count of nanoseconds, the
  scan cursor is a \<open>uint64\<close>. The \<open>ctx\<close> argument that the operations only pass on to
  the client is part of what the client does and has no argument of its own here.
\<close>

type_synonym duration = "64 word"
type_synonym cursor = "64 word"

definition Second :: duration where
  "Second = 1000000000"

definition Minute :: duration where
  "Minute = 60 * Second"

definition defaultScan :: nat where
  "defaultScan = 20"

definition defaultTTL :: duration where
  "defaultTTL = Minute"

text \<open>
  Errors are values: what the store client returns, what the JSON codec returns, the two
  errors of a finished context, and the panic of \<open>time.NewTicker\<close> on a non-positive period.
\<close>

datatype error =
    Canceled
  | DeadlineExceeded
  | StoreError string
  | SerializationError string
  | Panic string

text \<open>\<open>registry.ServiceInstance\<close> of the host framework.\<close>

record ServiceInstance =
  ID :: string
  Name :: string
  Version :: string
  Metadata :: "(string \<times> string) list"
  Endpoints :: "string list"

text \<open>
  \<open>jsoniter.MarshalToString\<close> and \<open>jsoniter.UnmarshalFromString\<close> belong to a library, so
  the codec is a parameter of every operation that encodes or decodes.
\<close>

record codec =
  MarshalToString :: "ServiceInstance \<Rightarrow> error + string"
  UnmarshalFromString :: "string \<Rightarrow> error + ServiceInstance"

text \<open>
  The commands the package sends to the store, with their arguments. A value returned by
  \<open>MGet\<close> is an \<open>interface{}\<close>: a string for a key that holds one, nil otherwise.
\<close>

datatype cmd =
    CmdTTL string
  | CmdExpire string duration
  | CmdSet string string duration
  | CmdDel string
  | CmdScan cursor string nat
  | CmdMGet "string list"

datatype reply = Bulk string | Nil

text \<open>
  \<open>*redis.Client\<close> is a handle on a store outside the program. It is a record of
  operations over a store state \<open>'s\<close>; every operation may change that state and may fail.
\<close>

record 's client =
  client_TTL :: "string \<Rightarrow> 's \<Rightarrow> (error + duration) \<times> 's"
  client_Expire :: "string \<Rightarrow> duration \<Rightarrow> 's \<Rightarrow> error option \<times> 's"
  client_Set :: "string \<Rightarrow> string \<Rightarrow> duration \<Rightarrow> 's \<Rightarrow> error option \<times> 's"
  client_Del :: "string \<Rightarrow> 's \<Rightarrow> error option \<times> 's"
  client_Scan :: "cursor \<Rightarrow> string \<Rightarrow> nat \<Rightarrow> 's \<Rightarrow> (error + string list \<times> cursor) \<times> 's"
  client_MGet :: "string list \<Rightarrow> 's \<Rightarrow> (error + reply list) \<times> 's"

text \<open>
  Everything the package does to the outside is recorded in program order: a command sent
  to the store, a stopped ticker, a cancelled context, a started renewal goroutine (with
  the key, value and period it captured).
\<close>

datatype event =
    Cmd cmd
  | TickerStop
  | CtxCancel
  | Go string string duration

record 's world =
  store :: 's
  trace :: "event list"

definition issue :: "cmd \<Rightarrow> ('s \<Rightarrow> 'a \<times> 's) \<Rightarrow> 's world \<Rightarrow> 'a \<times> 's world" where
  "issue c f w = (case f (store w) of (r, s') \<Rightarrow> (r, \<lparr>store = s', trace = trace w @ [Cmd c]\<rparr>))"

definition emit :: "event \<Rightarrow> 's world \<Rightarrow> 's world" where
  "emit e w = w\<lparr>trace := trace w @ [e]\<rparr>"

text \<open>
  A context is done with an error or still live; \<open>context.WithCancel\<close> derives a context
  that starts in its parent's condition, and its cancel function is idempotent.
\<close>

type_synonym go_context = "error option"

definition WithCancel :: "go_context \<Rightarrow> go_context" where
  "WithCancel parent = parent"

definition cancel :: "go_context \<Rightarrow> go_context" where
  "cancel c = (case c of None \<Rightarrow> Some Canceled | Some e \<Rightarrow> Some e)"

record ticker =
  period :: duration
  stopped :: bool

definition NewTicker :: "duration \<Rightarrow> error + ticker" where
  "NewTicker d =
     (if d \<le>s 0 then Inl (Panic ''non-positive interval for NewTicker'')
      else Inr \<lparr>period = d, stopped = False\<rparr>)"

record options =
  octx :: go_context
  namespace :: string
  ttl :: duration
  watcherTtl :: duration

record 's handle =
  client :: "'s client"
  ticker :: ticker
  ctx :: go_context

record 's Registry = "'s handle" +
  opts :: options

record 's watcher = "'s handle" +
  key :: string

section \<open>registry.go\<close>

definition keyFormat :: "string \<Rightarrow> string \<Rightarrow> string \<Rightarrow> string" where
  "keyFormat a b c = a @ ''/'' @ b @ ''/'' @ c"

definition watcherFormat :: "string \<Rightarrow> string \<Rightarrow> string" where
  "watcherFormat a b = a @ ''/'' @ b"

datatype Option = Context go_context | Namespace string | TTL duration | WatcherTTL duration

fun apply_Option :: "Option \<Rightarrow> options \<Rightarrow> options" where
  "apply_Option (Context c) o' = o'\<lparr>octx := c\<rparr>"
| "apply_Option (Namespace ns) o' = o'\<lparr>namespace := ns\<rparr>"
| "apply_Option (TTL d) o' = o'\<lparr>ttl := d\<rparr>"
| "apply_Option (WatcherTTL d) o' = o'\<lparr>watcherTtl := d\<rparr>"

definition New :: "'s client \<Rightarrow> Option list \<Rightarrow> error + 's Registry" where
  "New cl os =
     (let options = fold apply_Option os
            \<lparr>octx = None, namespace = ''/microservices'', ttl = defaultTTL, watcherTtl = defaultTTL\<rparr>
      in case NewTicker (ttl options) of
           Inl e \<Rightarrow> Inl e
         | Inr t \<Rightarrow> Inr \<lparr>client = cl, ticker = t, ctx = WithCancel (octx options), opts = options\<rparr>)"

text \<open>
  The inner loop of \<open>services\<close> over the values of one \<open>MGet\<close>: a string is decoded and
  appended, a decoding error returns at once, anything that is not a string is passed over.
\<close>

fun decode_values :: "codec \<Rightarrow> reply list \<Rightarrow> ServiceInstance list \<Rightarrow> error + ServiceInstance list" where
  "decode_values j [] items = Inr items"
| "decode_values j (Bulk str # res) items =
     (case UnmarshalFromString j str of
        Inl err \<Rightarrow> Inl err
      | Inr si \<Rightarrow> decode_values j res (items @ [si]))"
| "decode_values j (Nil # res) items = decode_values j res items"

text \<open>
  The outer loop of \<open>services\<close>. Nothing in the code bounds the number of rounds (a store
  may go on returning non-empty batches and non-zero cursors), so the loop takes fuel and
  \<open>None\<close> is the run that has not returned when the fuel is spent.
\<close>

fun services_loop ::
  "nat \<Rightarrow> 's client \<Rightarrow> codec \<Rightarrow> string \<Rightarrow> cursor \<Rightarrow> ServiceInstance list \<Rightarrow> 's world
     \<Rightarrow> (error + ServiceInstance list) option \<times> 's world" where
  "services_loop 0 cl j pat cur items w = (None, w)"
| "services_loop (Suc n) cl j pat cur items w =
     (case issue (CmdScan cur pat defaultScan) (client_Scan cl cur pat defaultScan) w of
        (Inl err, w1) \<Rightarrow> (Some (Inl err), w1)
      | (Inr (keys, cur'), w1) \<Rightarrow>
          if length keys = 0 then (Some (Inr items), w1)
          else (case issue (CmdMGet keys) (client_MGet cl keys) w1 of
                  (Inl err, w2) \<Rightarrow> (Some (Inl err), w2)
                | (Inr res, w2) \<Rightarrow>
                    (case decode_values j res items of
                       Inl err \<Rightarrow> (Some (Inl err), w2)
                     | Inr items' \<Rightarrow>
                         if cur' = 0 then (Some (Inr items'), w2)
                         else services_loop n cl j pat cur' items' w2)))"

definition services ::
  "nat \<Rightarrow> 's client \<Rightarrow> codec \<Rightarrow> string \<Rightarrow> 's world
     \<Rightarrow> (error + ServiceInstance list) option \<times> 's world" where
  "services n cl j k w = services_loop n cl j (k @ ''*'') 0 [] w"

definition GetService ::
  "nat \<Rightarrow> codec \<Rightarrow> 's Registry \<Rightarrow> string \<Rightarrow> 's world
     \<Rightarrow> (error + ServiceInstance list) option \<times> 's world" where
  "GetService n j r serviceName w = services n (client r) j serviceName w"

definition register ::
  "'s client \<Rightarrow> string \<Rightarrow> string \<Rightarrow> duration \<Rightarrow> 's world \<Rightarrow> error option \<times> 's world" where
  "register cl k v d w =
     (case issue (CmdTTL k) (client_TTL cl k) w of
        (Inl err, w1) \<Rightarrow> (Some err, w1)
      | (Inr res, w1) \<Rightarrow>
          (let d' = d + 2 * Second
           in if 1 <s res then issue (CmdExpire k d') (client_Expire cl k d') w1
              else issue (CmdSet k v d') (client_Set cl k v d') w1))"

definition Register ::
  "codec \<Rightarrow> 's Registry \<Rightarrow> ServiceInstance \<Rightarrow> 's world \<Rightarrow> error option \<times> 's world" where
  "Register j r service w =
     (let k = keyFormat (namespace (opts r)) (Name service) (ID service)
      in case MarshalToString j service of
           Inl err \<Rightarrow> (Some err, w)
         | Inr v \<Rightarrow>
             (case register (client r) k v (ttl (opts r)) w of
                (Some err, w1) \<Rightarrow> (Some err, w1)
              | (None, w1) \<Rightarrow> (None, emit (Go k v (ttl (opts r))) w1)))"

text \<open>
  One round of the goroutine that \<open>Register\<close> starts. What wakes its \<open>select\<close> is the
  runtime's choice and an argument here: the registry's context is done, or the ticker's
  channel delivers (\<open>Tick ok\<close>, where \<open>ok\<close> is false on a closed channel). The
  goroutine leaves on a done context and on a closed channel; on a tick it applies
  \<open>register\<close> and drops the result. \<open>True\<close> means that the goroutine goes on.
\<close>

datatype wakeup = Done error | Tick bool

definition renewal :: "'s client \<Rightarrow> string \<Rightarrow> string \<Rightarrow> duration \<Rightarrow> wakeup \<Rightarrow> 's world \<Rightarrow> bool \<times> 's world" where
  "renewal cl k v d wk w =
     (case wk of
        Done e \<Rightarrow> (False, w)
      | Tick ok \<Rightarrow> if \<not> ok then (False, w) else (True, snd (register cl k v d w)))"

definition Deregister ::
  "'s Registry \<Rightarrow> ServiceInstance \<Rightarrow> 's world \<Rightarrow> error option \<times> 's Registry \<times> 's world" where
  "Deregister r service w =
     (let r1 = r\<lparr>ticker := (ticker r)\<lparr>stopped := True\<rparr>\<rparr>;
          w1 = emit TickerStop w;
          r2 = r1\<lparr>ctx := cancel (ctx r1)\<rparr>;
          w2 = emit CtxCancel w1;
          k = keyFormat (namespace (opts r)) (Name service) (ID service)
      in case issue (CmdDel k) (client_Del (client r) k) w2 of
           (err, w3) \<Rightarrow> (err, r2, w3))"

section \<open>watcher.go\<close>

definition newWatcher :: "go_context \<Rightarrow> string \<Rightarrow> 's client \<Rightarrow> duration \<Rightarrow> error + 's watcher" where
  "newWatcher c k cl d =
     (case NewTicker d of
        Inl e \<Rightarrow> Inl e
      | Inr t \<Rightarrow> Inr \<lparr>client = cl, ticker = t, ctx = WithCancel c, key = k\<rparr>)"

definition Watch :: "'s Registry \<Rightarrow> go_context \<Rightarrow> string \<Rightarrow> error + 's watcher" where
  "Watch r c serviceName =
     newWatcher c (watcherFormat (namespace (opts r)) serviceName) (client r) (watcherTtl (opts r))"

text \<open>
  \<open>Next\<close> waits for the context or the ticker; which of the two wakes it is the runtime's
  choice and an argument here. On a done context it returns the context's error, which the
  wakeup carries; a receive from the ticker's channel goes on to \<open>services\<close>.
\<close>

definition Next ::
  "nat \<Rightarrow> codec \<Rightarrow> 's watcher \<Rightarrow> wakeup \<Rightarrow> 's world
     \<Rightarrow> (error + ServiceInstance list) option \<times> 's world" where
  "Next n j wt wk w =
     (case wk of
        Done e \<Rightarrow> (Some (Inl e), w)
      | Tick ok \<Rightarrow> services n (client wt) j (key wt) w)"

definition Stop :: "'s watcher \<Rightarrow> 's world \<Rightarrow> 's watcher \<times> 's world" where
  "Stop wt w =
     (let wt1 = wt\<lparr>ticker := (ticker wt)\<lparr>stopped := True\<rparr>\<rparr>;
          w1 = emit TickerStop w;
          wt2 = wt1\<lparr>ctx := cancel (ctx wt1)\<rparr>
      in (wt2, emit CtxCancel w1))"

section \<open>A store in memory\<close>

text \<open>
  A store that meets the contract the package expects of its collaborator, for running the
  operations on concrete inputs. An entry is a key, what the key holds (\<open>None\<close> for a
  value that is not a string, which \<open>MGet\<close> reports as nil) and its remaining time to
  live. \<open>TTL\<close> answers -2 for an absent key. \<open>Scan\<close> walks the keys that match the
  pattern in the order of the entries, \<open>count\<close> at a time, the cursor being the position
  reached and 0 once the walk is complete. In a pattern \<open>*\<close> stands for any run of
  characters and every other character for itself. A command listed in \<open>faults\<close> fails
  with the error given there.
\<close>

datatype op = OpTTL | OpExpire | OpSet | OpDel | OpScan | OpMGet

record mem =
  entries :: "(string \<times> string option \<times> duration) list"
  faults :: "(op \<times> error) list"

fun glob_match :: "string \<Rightarrow> string \<Rightarrow> bool" where
  "glob_match [] [] = True"
| "glob_match [] (c # s) = False"
| "glob_match (p # ps) [] = (p = CHR ''*'' \<and> glob_match ps [])"
| "glob_match (p # ps) (c # s) =
     (if p = CHR ''*'' then glob_match ps (c # s) \<or> glob_match (p # ps) s
      else p = c \<and> glob_match ps s)"

definition mem_TTL :: "string \<Rightarrow> mem \<Rightarrow> (error + duration) \<times> mem" where
  "mem_TTL k m =
     (case map_of (faults m) OpTTL of
        Some e \<Rightarrow> (Inl e, m)
      | None \<Rightarrow> (Inr (case map_of (entries m) k of None \<Rightarrow> - 2 | Some (v, d) \<Rightarrow> d), m))"

definition mem_Expire :: "string \<Rightarrow> duration \<Rightarrow> mem \<Rightarrow> error option \<times> mem" where
  "mem_Expire k d m =
     (case map_of (faults m) OpExpire of
        Some e \<Rightarrow> (Some e, m)
      | None \<Rightarrow>
          (None, m\<lparr>entries := map (\<lambda>(k', v, d'). if k' = k then (k', v, d) else (k', v, d')) (entries m)\<rparr>))"

definition mem_Set :: "string \<Rightarrow> string \<Rightarrow> duration \<Rightarrow> mem \<Rightarrow> error option \<times> mem" where
  "mem_Set k v d m =
     (case map_of (faults m) OpSet of
        Some e \<Rightarrow> (Some e, m)
      | None \<Rightarrow> (None, m\<lparr>entries := filter (\<lambda>e. fst e \<noteq> k) (entries m) @ [(k, Some v, d)]\<rparr>))"

definition mem_Del :: "string \<Rightarrow> mem \<Rightarrow> error option \<times> mem" where
  "mem_Del k m =
     (case map_of (faults m) OpDel of
        Some e \<Rightarrow> (Some e, m)
      | None \<Rightarrow> (None, m\<lparr>entries := filter (\<lambda>e. fst e \<noteq> k) (entries m)\<rparr>))"

definition matching :: "string \<Rightarrow> mem \<Rightarrow> string list" where
  "matching pat m = filter (glob_match pat) (map fst (entries m))"

definition mem_Scan :: "cursor \<Rightarrow> string \<Rightarrow> nat \<Rightarrow> mem \<Rightarrow> (error + string list \<times> cursor) \<times> mem" where
  "mem_Scan cur pat n m =
     (case map_of (faults m) OpScan of
        Some e \<Rightarrow> (Inl e, m)
      | None \<Rightarrow>
          (let ks = matching pat m; p = unat cur
           in (Inr (take n (drop p ks), if length ks \<le> p + n then 0 else of_nat (p + n)), m)))"

definition mem_reply :: "mem \<Rightarrow> string \<Rightarrow> reply" where
  "mem_reply m k = (case map_of (entries m) k of Some (Some v, d) \<Rightarrow> Bulk v | _ \<Rightarrow> Nil)"

definition mem_MGet :: "string list \<Rightarrow> mem \<Rightarrow> (error + reply list) \<times> mem" where
  "mem_MGet ks m =
     (case map_of (faults m) OpMGet of
        Some e \<Rightarrow> (Inl e, m)
      | None \<Rightarrow> (Inr (map (mem_reply m) ks), m))"

definition mem_client :: "mem client" where
  "mem_client =
     \<lparr>client_TTL = mem_TTL, client_Expire = mem_Expire, client_Set = mem_Set,
      client_Del = mem_Del, client_Scan = mem_Scan, client_MGet = mem_MGet\<rparr>"



text \<open>
  A codec given by a finite table of instances and their encodings: an instance that the
  table lacks cannot be encoded, a string that the table lacks cannot be decoded.
\<close>

definition table_codec :: "(ServiceInstance \<times> string) list \<Rightarrow> codec" where
  "table_codec tbl =
     \<lparr>MarshalToString = (\<lambda>si. case map_of tbl si of
                                 None \<Rightarrow> Inl (SerializationError ''unsupported value'')
                               | Some s \<Rightarrow> Inr s),
      UnmarshalFromString = (\<lambda>s. case map_of (map (\<lambda>(si, s'). (s', si)) tbl) s of
                                    None \<Rightarrow> Inl (SerializationError ''invalid input'')
                                  | Some si \<Rightarrow> Inr si)\<rparr>"

definition mk_instance :: "string \<Rightarrow> string \<Rightarrow> ServiceInstance" where
  "mk_instance n i = \<lparr>ID = i, Name = n, Version = ''v1'', Metadata = [], Endpoints = []\<rparr>"

section \<open>The enumeration as the specification words it\<close>

text \<open>
  The store's side of one enumeration, without any decoding: starting at a cursor, ask for
  up to twenty keys that match the pattern; an empty batch ends the walk; otherwise fetch
  the batch with one multi-get and go on from the cursor the store returned, until that
  cursor is the start sentinel again. The result is every value fetched, in order, and how
  the walk went: ended by one of its two stop rules, failed with the store's error, or not
  finished within the given number of rounds.
\<close>

datatype stop = Ended | Failed error | Unfinished

fun scan_run :: "nat \<Rightarrow> 's client \<Rightarrow> string \<Rightarrow> cursor \<Rightarrow> 's \<Rightarrow> reply list \<times> stop" where
  "scan_run 0 cl pat cur s = ([], Unfinished)"
| "scan_run (Suc n) cl pat cur s =
     (case client_Scan cl cur pat 20 s of
        (Inl e, s1) \<Rightarrow> ([], Failed e)
      | (Inr (keys, cur'), s1) \<Rightarrow>
          if keys = [] then ([], Ended)
          else (case client_MGet cl keys s1 of
                  (Inl e, s2) \<Rightarrow> ([], Failed e)
                | (Inr res, s2) \<Rightarrow>
                    if cur' = 0 then (res, Ended)
                    else (case scan_run n cl pat cur' s2 of (rest, st) \<Rightarrow> (res @ rest, st))))"

text \<open>
  The values that are present among the fetched ones, the error of the first of them that
  does not decode, and the instance a value decodes to.
\<close>

fun present :: "reply list \<Rightarrow> string list" where
  "present [] = []"
| "present (Bulk str # res) = str # present res"
| "present (Nil # res) = present res"

fun first_error :: "codec \<Rightarrow> string list \<Rightarrow> error option" where
  "first_error j [] = None"
| "first_error j (str # strs) =
     (case UnmarshalFromString j str of Inl e \<Rightarrow> Some e | Inr si \<Rightarrow> first_error j strs)"

definition decoded :: "codec \<Rightarrow> string \<Rightarrow> ServiceInstance" where
  "decoded j str = projr (UnmarshalFromString j str)"

text \<open>The two commands of round \<open>i\<close> of a walk over the keys \<open>ks\<close>, twenty keys a round.\<close>

definition round_events :: "string \<Rightarrow> string list \<Rightarrow> nat \<Rightarrow> event list" where
  "round_events pat ks i =
     [Cmd (CmdScan (of_nat (20 * i)) pat 20), Cmd (CmdMGet (take 20 (drop (20 * i) ks)))]"

section \<open>Scenarios\<close>

text \<open>
  The registry that \<open>New\<close> builds for the namespace \<open>/ms\<close> and a TTL of five seconds over
  the store in memory, a world over given entries and faults with nothing recorded yet, and
  the codec that knows the instance \<open>i1\<close> of the service \<open>orders\<close>.
\<close>

definition ms_registry :: "mem Registry" where
  "ms_registry =
     \<lparr>client = mem_client, ticker = \<lparr>period = 5 * Second, stopped = False\<rparr>, ctx = None,
      opts = \<lparr>octx = None, namespace = ''/ms'', ttl = 5 * Second, watcherTtl = Minute\<rparr>\<rparr>"

definition mem_world :: "(string \<times> string option \<times> duration) list \<Rightarrow> (op \<times> error) list \<Rightarrow> mem world" where
  "mem_world es fs = \<lparr>store = \<lparr>entries = es, faults = fs\<rparr>, trace = []\<rparr>"

definition orders_codec :: codec where
  "orders_codec = table_codec [(mk_instance ''orders'' ''i1'', ''{i1}''), (mk_instance [] ''i1'', ''{anon}'')]"

text \<open>
  A store with three records under \<open>/ms/orders/\<close>, the second of which holds no string,
  with the faults given; the codec that knows the first and the third; a store error.
\<close>

definition gap_mem :: "(op \<times> error) list \<Rightarrow> mem" where
  "gap_mem fs =
     \<lparr>entries = [(''/ms/orders/i1'', Some ''{i1}'', 7 * Second), (''/ms/orders/i2'', None, 7 * Second),
                 (''/ms/orders/i3'', Some ''{i3}'', 7 * Second)],
      faults = fs\<rparr>"

definition gap_codec :: codec where
  "gap_codec = table_codec [(mk_instance ''orders'' ''i1'', ''{i1}''), (mk_instance ''orders'' ''i3'', ''{i3}'')]"

definition refused :: error where
  "refused = StoreError ''connection refused''"

text \<open>Twenty-five instances of \<open>orders\<close>, their keys, their records and their codec.\<close>

definition ids25 :: "string list" where
  "ids25 = map (\<lambda>c. [c]) ''abcdefghijklmnopqrstuvwxy''"

definition keys25 :: "string list" where
  "keys25 = map (\<lambda>i. ''/ms/orders/'' @ i) ids25"

definition instances25 :: "ServiceInstance list" where
  "instances25 = map (mk_instance ''orders'') ids25"

definition mem25 :: mem where
  "mem25 = \<lparr>entries = map (\<lambda>i. (''/ms/orders/'' @ i, Some (''{'' @ i @ ''}''), 7 * Second)) ids25,
            faults = []\<rparr>"

definition codec25 :: codec where
  "codec25 = table_codec (map (\<lambda>i. (mk_instance ''orders'' i, ''{'' @ i @ ''}'')) ids25)"



text \<open>
  Two services, \<open>orders\<close> and \<open>orders-v2\<close>, with one instance each, and the watcher that
  \<open>Watch\<close> returns for \<open>orders\<close>.
\<close>

definition v2_mem :: mem where
  "v2_mem = \<lparr>entries = [(''/ms/orders-v2/i9'', Some ''{i9}'', 7 * Second),
                        (''/ms/orders/i1'', Some ''{i1}'', 7 * Second)], faults = []\<rparr>"

definition v2_codec :: codec where
  "v2_codec = table_codec [(mk_instance ''orders'' ''i1'', ''{i1}''), (mk_instance ''orders-v2'' ''i9'', ''{i9}'')]"

definition orders_watcher :: "mem watcher" where
  "orders_watcher = \<lparr>client = mem_client, ticker = \<lparr>period = Minute, stopped = False\<rparr>, ctx = None,
              key = ''/ms/orders''\<rparr>"

section \<open>Running the model\<close>

lemmas run_defs =
  Register_def register_def Deregister_def GetService_def services_def Watch_def newWatcher_def
  Next_def NewTicker_def WithCancel_def cancel_def keyFormat_def watcherFormat_def issue_def
  emit_def defaultScan_def defaultTTL_def Minute_def Second_def New_def
  mem_client_def mem_TTL_def mem_Expire_def mem_Set_def mem_Del_def mem_Scan_def mem_MGet_def
  mem_reply_def matching_def table_codec_def mk_instance_def ms_registry_def mem_world_def
  orders_codec_def word_sless_alt word_sle_eq Let_def

lemma New_ms_registry: "New mem_client [Namespace ''/ms'', TTL (5 * Second)] = Inr ms_registry"
  by (simp add: run_defs)

section \<open>Register\<close>

text \<open>
  C8. When the encoding of the instance fails, \<open>Register\<close> returns the encoder's error and
  the world is the one it was given: the store in the same state and nothing added to the
  record of effects, so no TTL query, no Expire, no Set and no renewal goroutine. The
  registry value is not among the results because \<open>Register\<close> never assigns to it.
\<close>

theorem Register_encoding_failure:
  assumes "MarshalToString j service = Inl err"
  shows "Register j r service w = (Some err, w)"
  using assms by (simp add: Register_def)

theorem Register_encoding_failure_witness:
  "MarshalToString (table_codec []) (mk_instance ''orders'' ''i1'')
     = Inl (SerializationError ''unsupported value'')
   \<and> Register (table_codec []) ms_registry (mk_instance ''orders'' ''i1'') (mem_world [] [])
     = (Some (SerializationError ''unsupported value''), mem_world [] [])"
proof -
  have h: "MarshalToString (table_codec []) (mk_instance ''orders'' ''i1'')
             = Inl (SerializationError ''unsupported value'')"
    by (simp add: table_codec_def)
  from Register_encoding_failure [OF h, of ms_registry "mem_world [] []"] h
  show ?thesis by simp
qed




section \<open>Deregister\<close>

text \<open>
  C6. \<open>Deregister\<close> stops the registry's ticker, then cancels the registry's context, then
  sends the delete of the key \<open>{namespace}/{Name}/{ID}\<close>, in this order and whatever the
  store answers; what it returns is the store's answer to the delete (its error when the
  delete fails), and the registry it leaves has the ticker stopped and the context done.
\<close>

theorem Deregister_stops_then_deletes:
  "(let k = namespace (opts r) @ ''/'' @ Name service @ ''/'' @ ID service;
        del = client_Del (client r) k (store w)
    in Deregister r service w =
         (fst del,
          r\<lparr>ticker := (ticker r)\<lparr>stopped := True\<rparr>, ctx := cancel (ctx r)\<rparr>,
          \<lparr>store = snd del, trace = trace w @ [TickerStop, CtxCancel, Cmd (CmdDel k)]\<rparr>))
   \<and> stopped (ticker (fst (snd (Deregister r service w))))
   \<and> ctx (fst (snd (Deregister r service w))) \<noteq> None"
  by (simp add: Deregister_def keyFormat_def issue_def emit_def cancel_def Let_def
      split: prod.split option.split)

text \<open>
  With a store whose delete is refused, the ticker is stopped and the context cancelled all
  the same, and the refusal is what \<open>Deregister\<close> returns.
\<close>

lemma Deregister_refused_delete:
  "Deregister ms_registry (mk_instance ''orders'' ''i1'')
       \<lparr>store = gap_mem [(OpDel, refused)], trace = []\<rparr>
     = (Some refused,
        ms_registry\<lparr>ticker := \<lparr>period = 5 * Second, stopped = True\<rparr>, ctx := Some Canceled\<rparr>,
        \<lparr>store = gap_mem [(OpDel, refused)],
         trace = [TickerStop, CtxCancel, Cmd (CmdDel ''/ms/orders/i1'')]\<rparr>)"
  by (simp add: run_defs gap_mem_def)

section \<open>The renew-or-write rule\<close>

text \<open>
  What \<open>register\<close> sends, for any client: the TTL query first; nothing more when the
  query fails; an Expire when the answer is more than one nanosecond; a Set otherwise.
\<close>

lemma register_TTL_error:
  assumes "client_TTL cl k (store w) = (Inl err, sa)"
  shows "register cl k v d w = (Some err, \<lparr>store = sa, trace = trace w @ [Cmd (CmdTTL k)]\<rparr>)"
  using assms by (simp add: register_def issue_def)

lemma register_Expire:
  assumes "client_TTL cl k (store w) = (Inr res, sa)" and "1 <s res"
  shows "register cl k v d w =
           (fst (client_Expire cl k (d + 2 * Second) sa),
            \<lparr>store = snd (client_Expire cl k (d + 2 * Second) sa),
             trace = trace w @ [Cmd (CmdTTL k), Cmd (CmdExpire k (d + 2 * Second))]\<rparr>)"
  using assms by (simp add: register_def issue_def Let_def split: prod.split)

lemma register_Set:
  assumes "client_TTL cl k (store w) = (Inr res, sa)" and "\<not> 1 <s res"
  shows "register cl k v d w =
           (fst (client_Set cl k v (d + 2 * Second) sa),
            \<lparr>store = snd (client_Set cl k v (d + 2 * Second) sa),
             trace = trace w @ [Cmd (CmdTTL k), Cmd (CmdSet k v (d + 2 * Second))]\<rparr>)"
  using assms by (simp add: register_def issue_def Let_def split: prod.split)

lemma one_second_exceeds_guard: "1 <s Second"
  by (simp add: Second_def word_sless_alt)

text \<open>
  C3 at a remaining TTL of exactly one second. The guard of \<open>register\<close> is \<open>res > 1\<close> on a
  \<open>time.Duration\<close>, that is, more than one nanosecond, while the sum two lines above it is
  written with \<open>time.Second\<close>. For a record with one second left the store answers
  1000000000, the guard holds, and \<open>register\<close> sends an Expire and leaves the old value in
  place, where the rule as claimed (a full Set at one second or less) rewrites the value.
\<close>

theorem register_at_one_second_sends_Expire:
  "register mem_client ''/ms/orders/i1'' ''new'' (5 * Second)
       (mem_world [(''/ms/orders/i1'', Some ''old'', Second)] [])
     = (None, \<lparr>store = \<lparr>entries = [(''/ms/orders/i1'', Some ''old'', 7 * Second)], faults = []\<rparr>,
               trace = [Cmd (CmdTTL ''/ms/orders/i1''),
                        Cmd (CmdExpire ''/ms/orders/i1'' (7 * Second))]\<rparr>)"
  by (simp add: run_defs)

section \<open>GetService and Watch\<close>

text \<open>
  \<open>GetService\<close> reads nothing of the registry but its client: its outcome is the same
  under any options, the namespace among them, while the key that \<open>Watch\<close> binds starts
  with the namespace.
\<close>

lemma GetService_ignores_options:
  "GetService n j (r\<lparr>opts := o'\<rparr>) serviceName w = GetService n j r serviceName w"
  by (simp add: GetService_def)

lemma GetService_is_services_of_name:
  "GetService n j r serviceName w = services_loop n (client r) j (serviceName @ ''*'') 0 [] w"
  by (simp add: GetService_def services_def)

text \<open>
  C1 on the registry of namespace \<open>/ms\<close>. \<open>GetService\<close> hands the service name itself to
  \<open>services\<close>, so the pattern it scans is \<open>orders*\<close>, without the namespace, where
  \<open>Watch\<close> builds \<open>/ms/orders\<close> and \<open>Register\<close> writes under \<open>/ms/orders/\<close>. The record of
  \<open>i1\<close> is in the store and \<open>GetService\<close> returns the empty list.
\<close>

theorem GetService_scans_bare_name:
  "GetService 1 orders_codec ms_registry ''orders''
       (mem_world [(''/ms/orders/i1'', Some ''{i1}'', 7 * Second)] [])
     = (Some (Inr []),
        \<lparr>store = \<lparr>entries = [(''/ms/orders/i1'', Some ''{i1}'', 7 * Second)], faults = []\<rparr>,
         trace = [Cmd (CmdScan 0 ''orders*'' 20)]\<rparr>)
   \<and> watcherFormat (namespace (opts ms_registry)) ''orders'' @ ''*'' = ''/ms/orders*''"
  by (simp add: run_defs)

text \<open>
  C2 in the scenario of the specification: namespace \<open>/ms\<close>, TTL five seconds, an empty
  store. \<open>Register\<close> of \<open>i1\<close> succeeds and leaves the record \<open>/ms/orders/i1\<close> with seven
  seconds to live; \<open>GetService\<close> for \<open>orders\<close> on that world returns the empty list, not
  the list with \<open>i1\<close>.
\<close>

theorem Register_then_GetService_empty:
  "New mem_client [Namespace ''/ms'', TTL (5 * Second)] = Inr ms_registry
   \<and> Register orders_codec ms_registry (mk_instance ''orders'' ''i1'') (mem_world [] [])
       = (None,
          \<lparr>store = \<lparr>entries = [(''/ms/orders/i1'', Some ''{i1}'', 7 * Second)], faults = []\<rparr>,
           trace = [Cmd (CmdTTL ''/ms/orders/i1''),
                    Cmd (CmdSet ''/ms/orders/i1'' ''{i1}'' (7 * Second)),
                    Go ''/ms/orders/i1'' ''{i1}'' (5 * Second)]\<rparr>)
   \<and> fst (GetService 1 orders_codec ms_registry ''orders''
            (snd (Register orders_codec ms_registry (mk_instance ''orders'' ''i1'') (mem_world [] []))))
       = Some (Inr [])"
  by (simp add: run_defs)

text \<open>
  C4 on one store and one registry. The watcher that \<open>Watch\<close> returns for \<open>orders\<close> is
  bound to \<open>/ms/orders\<close>, and its \<open>Next\<close>, woken by a tick, returns the instance \<open>i1\<close>;
  \<open>GetService\<close> for \<open>orders\<close> on the same world returns the empty list.
\<close>

theorem Next_differs_from_GetService:
  "Watch ms_registry None ''orders''
       = Inr \<lparr>client = mem_client, ticker = \<lparr>period = Minute, stopped = False\<rparr>, ctx = None,
              key = ''/ms/orders''\<rparr>
   \<and> fst (Next 1 orders_codec
             \<lparr>client = mem_client, ticker = \<lparr>period = Minute, stopped = False\<rparr>, ctx = None,
              key = ''/ms/orders''\<rparr>
             (Tick True) (mem_world [(''/ms/orders/i1'', Some ''{i1}'', 7 * Second)] []))
       = Some (Inr [mk_instance ''orders'' ''i1''])
   \<and> fst (GetService 1 orders_codec ms_registry ''orders''
             (mem_world [(''/ms/orders/i1'', Some ''{i1}'', 7 * Second)] []))
       = Some (Inr [])"
  by (simp add: run_defs)

section \<open>The enumeration routine\<close>

subsection \<open>Decoding and the walk\<close>

lemma decode_values_append:
  "decode_values j (a @ b) items =
     (case decode_values j a items of Inl e \<Rightarrow> Inl e | Inr xs \<Rightarrow> decode_values j b xs)"
proof (induction a arbitrary: items)
  case Nil
  show ?case by simp
next
  case (Cons r a)
  show ?case
  proof (cases r)
    case (Bulk str)
    then show ?thesis using Cons.IH by (simp split: sum.split)
  next
    case Nil
    then show ?thesis using Cons.IH by simp
  qed
qed

lemma decode_values_closed:
  "decode_values j res items =
     (case first_error j (present res) of
        Some e \<Rightarrow> Inl e
      | None \<Rightarrow> Inr (items @ map (decoded j) (present res)))"
proof (induction res arbitrary: items)
  case Nil
  show ?case by simp
next
  case (Cons r res)
  show ?case
  proof (cases r)
    case (Bulk str)
    then show ?thesis using Cons.IH by (simp add: decoded_def split: sum.split option.split)
  next
    case Nil
    then show ?thesis using Cons.IH by (simp split: option.split)
  qed
qed

lemma services_loop_scan_run:
  "fst (services_loop n cl j pat cur items w) =
     (case scan_run n cl pat cur (store w) of
        (res, st) \<Rightarrow>
          (case decode_values j res items of
             Inl e \<Rightarrow> Some (Inl e)
           | Inr xs \<Rightarrow> (case st of Ended \<Rightarrow> Some (Inr xs) | Failed e \<Rightarrow> Some (Inl e) | Unfinished \<Rightarrow> None)))"
proof (induction n arbitrary: cur items w)
  case 0
  show ?case by simp
next
  case (Suc n)
  show ?case
    by (simp add: issue_def defaultScan_def Suc.IH decode_values_append
             split: prod.split sum.split stop.split)
qed

text \<open>
  What the loop of \<open>services\<close> does in any state (cursor, items gathered so far, world),
  that is, at any round of a call:
  \<^item> if \<open>res\<close> are the values the store hands over from here on and \<open>st\<close> is how its walk
    goes, then the call returns the first decoding error among the present values of
    \<open>res\<close> if there is one; otherwise the store's error if the walk failed; otherwise, the
    walk having ended by its stop rule, the items so far followed by the decoding of every
    present value of \<open>res\<close>, the values that are not strings contributing nothing; and
    it has not returned only when the rounds allowed are used up;
  \<^item> a failed Scan ends the call there with the store's error, that Scan being the last
    command sent;
  \<^item> a failed MGet ends the call there with the store's error, that MGet being the last
    command sent;
  \<^item> a present value of the batch that does not decode ends the call with the decoding
    error, no command being sent after the MGet.
  An error result carries no list: the result is \<open>Inl\<close> of the error.
\<close>

lemma services_loop_outcome:
  "(scan_run n cl pat cur (store w) = (res, st) \<longrightarrow>
      fst (services_loop n cl j pat cur items w) =
        (case first_error j (present res) of
           Some e \<Rightarrow> Some (Inl e)
         | None \<Rightarrow>
             (case st of
                Ended \<Rightarrow> Some (Inr (items @ map (decoded j) (present res)))
              | Failed e \<Rightarrow> Some (Inl e)
              | Unfinished \<Rightarrow> None)))
   \<and> (client_Scan cl cur pat defaultScan (store w) = (Inl e, sa) \<longrightarrow>
        services_loop (Suc n) cl j pat cur items w =
          (Some (Inl e), \<lparr>store = sa, trace = trace w @ [Cmd (CmdScan cur pat defaultScan)]\<rparr>))
   \<and> (client_Scan cl cur pat defaultScan (store w) = (Inr (keys, cur'), sa) \<and> keys \<noteq> []
        \<and> client_MGet cl keys sa = (Inl e, sb) \<longrightarrow>
        services_loop (Suc n) cl j pat cur items w =
          (Some (Inl e),
           \<lparr>store = sb, trace = trace w @ [Cmd (CmdScan cur pat defaultScan), Cmd (CmdMGet keys)]\<rparr>))
   \<and> (client_Scan cl cur pat defaultScan (store w) = (Inr (keys, cur'), sa) \<and> keys \<noteq> []
        \<and> client_MGet cl keys sa = (Inr vs, sb) \<and> first_error j (present vs) = Some e \<longrightarrow>
        services_loop (Suc n) cl j pat cur items w =
          (Some (Inl e),
           \<lparr>store = sb, trace = trace w @ [Cmd (CmdScan cur pat defaultScan), Cmd (CmdMGet keys)]\<rparr>))"
proof (intro conjI impI)
  assume "scan_run n cl pat cur (store w) = (res, st)"
  then show "fst (services_loop n cl j pat cur items w) =
        (case first_error j (present res) of
           Some e \<Rightarrow> Some (Inl e)
         | None \<Rightarrow>
             (case st of
                Ended \<Rightarrow> Some (Inr (items @ map (decoded j) (present res)))
              | Failed e \<Rightarrow> Some (Inl e)
              | Unfinished \<Rightarrow> None))"
    by (simp add: services_loop_scan_run decode_values_closed split: option.split)
next
  assume "client_Scan cl cur pat defaultScan (store w) = (Inl e, sa)"
  then show "services_loop (Suc n) cl j pat cur items w =
          (Some (Inl e), \<lparr>store = sa, trace = trace w @ [Cmd (CmdScan cur pat defaultScan)]\<rparr>)"
    by (simp add: issue_def)
next
  assume "client_Scan cl cur pat defaultScan (store w) = (Inr (keys, cur'), sa) \<and> keys \<noteq> []
        \<and> client_MGet cl keys sa = (Inl e, sb)"
  then show "services_loop (Suc n) cl j pat cur items w =
          (Some (Inl e),
           \<lparr>store = sb, trace = trace w @ [Cmd (CmdScan cur pat defaultScan), Cmd (CmdMGet keys)]\<rparr>)"
    by (simp add: issue_def)
next
  assume "client_Scan cl cur pat defaultScan (store w) = (Inr (keys, cur'), sa) \<and> keys \<noteq> []
        \<and> client_MGet cl keys sa = (Inr vs, sb) \<and> first_error j (present vs) = Some e"
  then show "services_loop (Suc n) cl j pat cur items w =
          (Some (Inl e),
           \<lparr>store = sb, trace = trace w @ [Cmd (CmdScan cur pat defaultScan), Cmd (CmdMGet keys)]\<rparr>)"
    by (simp add: issue_def decode_values_closed)
qed

lemma services_loop_outcome_examples:
  "(scan_run 1 mem_client ''/ms/orders*'' 0 (gap_mem []) = ([Bulk ''{i1}'', Nil, Bulk ''{i3}''], Ended)
    \<and> fst (services_loop 1 mem_client gap_codec ''/ms/orders*'' 0 [] \<lparr>store = gap_mem [], trace = []\<rparr>)
        = Some (Inr [mk_instance ''orders'' ''i1'', mk_instance ''orders'' ''i3'']))
   \<and> (client_Scan mem_client 0 ''/ms/orders*'' defaultScan (gap_mem [(OpScan, refused)])
         = (Inl refused, gap_mem [(OpScan, refused)])
      \<and> services_loop 1 mem_client gap_codec ''/ms/orders*'' 0 []
           \<lparr>store = gap_mem [(OpScan, refused)], trace = []\<rparr>
         = (Some (Inl refused),
            \<lparr>store = gap_mem [(OpScan, refused)], trace = [Cmd (CmdScan 0 ''/ms/orders*'' 20)]\<rparr>))
   \<and> (client_Scan mem_client 0 ''/ms/orders*'' defaultScan (gap_mem [(OpMGet, refused)])
         = (Inr ([''/ms/orders/i1'', ''/ms/orders/i2'', ''/ms/orders/i3''], 0), gap_mem [(OpMGet, refused)])
      \<and> client_MGet mem_client [''/ms/orders/i1'', ''/ms/orders/i2'', ''/ms/orders/i3'']
           (gap_mem [(OpMGet, refused)])
         = (Inl refused, gap_mem [(OpMGet, refused)])
      \<and> services_loop 1 mem_client gap_codec ''/ms/orders*'' 0 []
           \<lparr>store = gap_mem [(OpMGet, refused)], trace = []\<rparr>
         = (Some (Inl refused),
            \<lparr>store = gap_mem [(OpMGet, refused)],
             trace = [Cmd (CmdScan 0 ''/ms/orders*'' 20),
                      Cmd (CmdMGet [''/ms/orders/i1'', ''/ms/orders/i2'', ''/ms/orders/i3''])]\<rparr>))
   \<and> (client_MGet mem_client [''/ms/orders/i1'', ''/ms/orders/i2'', ''/ms/orders/i3''] (gap_mem [])
         = (Inr [Bulk ''{i1}'', Nil, Bulk ''{i3}''], gap_mem [])
      \<and> first_error orders_codec (present [Bulk ''{i1}'', Nil, Bulk ''{i3}''])
         = Some (SerializationError ''invalid input'')
      \<and> services_loop 1 mem_client orders_codec ''/ms/orders*'' 0 [] \<lparr>store = gap_mem [], trace = []\<rparr>
         = (Some (Inl (SerializationError ''invalid input'')),
            \<lparr>store = gap_mem [],
             trace = [Cmd (CmdScan 0 ''/ms/orders*'' 20),
                      Cmd (CmdMGet [''/ms/orders/i1'', ''/ms/orders/i2'', ''/ms/orders/i3''])]\<rparr>))"
proof -
  let ?pat = "''/ms/orders*''"
  let ?ks = "[''/ms/orders/i1'', ''/ms/orders/i2'', ''/ms/orders/i3'']"
  let ?vs = "[Bulk ''{i1}'', Nil, Bulk ''{i3}'']"
  have scan: "client_Scan mem_client 0 ?pat defaultScan (gap_mem fs)
                = (case map_of fs OpScan of Some e \<Rightarrow> (Inl e, gap_mem fs) | None \<Rightarrow> (Inr (?ks, 0), gap_mem fs))" for fs
    by (simp add: mem_client_def mem_Scan_def matching_def gap_mem_def defaultScan_def split: option.split)
  have mget: "client_MGet mem_client ?ks (gap_mem fs)
                = (case map_of fs OpMGet of Some e \<Rightarrow> (Inl e, gap_mem fs) | None \<Rightarrow> (Inr ?vs, gap_mem fs))" for fs
    by (simp add: mem_client_def mem_MGet_def mem_reply_def gap_mem_def split: option.split)
  have a1: "scan_run 1 mem_client ?pat 0 (gap_mem []) = (?vs, Ended)"
    using scan [of "[]"] mget [of "[]"] by (simp add: defaultScan_def)
  have a2: "fst (services_loop 1 mem_client gap_codec ?pat 0 [] \<lparr>store = gap_mem [], trace = []\<rparr>)
        = Some (Inr [mk_instance ''orders'' ''i1'', mk_instance ''orders'' ''i3''])"
    using services_loop_outcome
      [where n = 1 and cl = mem_client and pat = ?pat and cur = 0
         and w = "\<lparr>store = gap_mem [], trace = []\<rparr>" and res = ?vs and st = Ended
         and j = gap_codec and items = "[]", THEN conjunct1] a1
    by (simp add: gap_codec_def table_codec_def decoded_def mk_instance_def)
  have b1: "client_Scan mem_client 0 ?pat defaultScan (gap_mem [(OpScan, refused)])
         = (Inl refused, gap_mem [(OpScan, refused)])"
    by (simp add: scan)
  have b2: "services_loop 1 mem_client gap_codec ?pat 0 [] \<lparr>store = gap_mem [(OpScan, refused)], trace = []\<rparr>
         = (Some (Inl refused),
            \<lparr>store = gap_mem [(OpScan, refused)], trace = [Cmd (CmdScan 0 ?pat 20)]\<rparr>)"
    using services_loop_outcome
      [where n = 0 and cl = mem_client and pat = ?pat and cur = 0
         and w = "\<lparr>store = gap_mem [(OpScan, refused)], trace = []\<rparr>" and e = refused
         and sa = "gap_mem [(OpScan, refused)]" and j = gap_codec and items = "[]",
       THEN conjunct2, THEN conjunct1] b1
    by (simp add: defaultScan_def)
  have c1: "client_Scan mem_client 0 ?pat defaultScan (gap_mem [(OpMGet, refused)])
         = (Inr (?ks, 0), gap_mem [(OpMGet, refused)])"
    by (simp add: scan)
  have c2: "client_MGet mem_client ?ks (gap_mem [(OpMGet, refused)])
         = (Inl refused, gap_mem [(OpMGet, refused)])"
    by (simp add: mget)
  have c3: "services_loop 1 mem_client gap_codec ?pat 0 [] \<lparr>store = gap_mem [(OpMGet, refused)], trace = []\<rparr>
         = (Some (Inl refused),
            \<lparr>store = gap_mem [(OpMGet, refused)],
             trace = [Cmd (CmdScan 0 ?pat 20), Cmd (CmdMGet ?ks)]\<rparr>)"
    using services_loop_outcome
      [where n = 0 and cl = mem_client and pat = ?pat and cur = 0
         and w = "\<lparr>store = gap_mem [(OpMGet, refused)], trace = []\<rparr>" and e = refused
         and keys = ?ks and cur' = 0
         and sa = "gap_mem [(OpMGet, refused)]" and sb = "gap_mem [(OpMGet, refused)]"
         and j = gap_codec and items = "[]",
       THEN conjunct2, THEN conjunct2, THEN conjunct1] c1 c2
    by (simp add: defaultScan_def)
  have d0: "client_Scan mem_client 0 ?pat defaultScan (gap_mem []) = (Inr (?ks, 0), gap_mem [])"
    by (simp add: scan)
  have d1: "client_MGet mem_client ?ks (gap_mem []) = (Inr ?vs, gap_mem [])"
    by (simp add: mget)
  have d2: "first_error orders_codec (present ?vs) = Some (SerializationError ''invalid input'')"
    by (simp add: orders_codec_def table_codec_def)
  have d3: "services_loop 1 mem_client orders_codec ?pat 0 [] \<lparr>store = gap_mem [], trace = []\<rparr>
         = (Some (Inl (SerializationError ''invalid input'')),
            \<lparr>store = gap_mem [], trace = [Cmd (CmdScan 0 ?pat 20), Cmd (CmdMGet ?ks)]\<rparr>)"
    using services_loop_outcome
      [where n = 0 and cl = mem_client and pat = ?pat and cur = 0
         and w = "\<lparr>store = gap_mem [], trace = []\<rparr>" and e = "SerializationError ''invalid input''"
         and keys = ?ks and cur' = 0 and vs = ?vs
         and sa = "gap_mem []" and sb = "gap_mem []"
         and j = orders_codec and items = "[]",
       THEN conjunct2, THEN conjunct2, THEN conjunct2] d0 d1 d2
    by (simp add: defaultScan_def)
  show ?thesis using a1 a2 b1 b2 c1 c2 c3 d1 d2 d3 by blast
qed

subsection \<open>An empty batch before the end of the walk\<close>

text \<open>
  For any store, a first batch without keys ends the call with the empty list as a
  success, whatever cursor the store returned with it.
\<close>

lemma services_empty_first_batch:
  assumes "client_Scan cl 0 (k @ ''*'') 20 (store w) = (Inr ([], nxt), sa)"
  shows "services (Suc n) cl j k w =
           (Some (Inr []), \<lparr>store = sa, trace = trace w @ [Cmd (CmdScan 0 (k @ ''*'') 20)]\<rparr>)"
  using assms by (simp add: services_def issue_def defaultScan_def)




subsection \<open>On the store in memory\<close>

lemma unat_cursor: "p < 2 ^ 64 \<Longrightarrow> unat (of_nat p :: cursor) = p"
  by (simp add: unat_of_nat)

lemma cursor_nonzero: "0 < p \<Longrightarrow> p < 2 ^ 64 \<Longrightarrow> (of_nat p :: cursor) \<noteq> 0"
  using of_nat_neq_0 [where 'a = 64, of p] by simp

lemma rounds_last: "20 * i < l \<Longrightarrow> l \<le> 20 * i + 20 \<Longrightarrow> (l + 19) div 20 = Suc i" for l :: nat
  by arith

lemma rounds_more: "20 * i + 20 < l \<Longrightarrow> Suc i < (l + 19) div 20" for l :: nat
  by arith

lemma mem_services_loop:
  assumes "faults m = []" and "ks = matching pat m" and "length ks < 2 ^ 64"
    and "20 * i < length ks" and "length ks \<le> 20 * (i + n)"
    and "decode_values j (map (mem_reply m) (drop (20 * i) ks)) items = Inr xs"
  shows "services_loop n mem_client j pat (of_nat (20 * i)) items \<lparr>store = m, trace = t\<rparr> =
           (Some (Inr xs),
            \<lparr>store = m, trace = t @ concat (map (round_events pat ks) [i..<(length ks + 19) div 20])\<rparr>)"
  using assms
proof (induction n arbitrary: i items t)
  case 0
  then show ?case by simp
next
  case (Suc n)
  let ?p = "20 * i"
  let ?batch = "take 20 (drop ?p ks)"
  have p64: "?p < 2 ^ 64" using Suc.prems by simp
  have batch: "?batch \<noteq> []" using Suc.prems by simp
  have scan: "mem_Scan (of_nat ?p) pat 20 m =
      (Inr (?batch, if length ks \<le> ?p + 20 then 0 else of_nat (?p + 20)), m)"
    using Suc.prems p64 by (simp add: mem_Scan_def unat_cursor Let_def del: of_nat_add of_nat_mult)
  have mget: "mem_MGet ?batch m = (Inr (map (mem_reply m) ?batch), m)"
    using Suc.prems by (simp add: mem_MGet_def)
  have split: "drop ?p ks = ?batch @ drop (20 * Suc i) ks"
    using append_take_drop_id [of 20 "drop ?p ks"] by (simp add: add.commute)
  have "map (mem_reply m) (drop ?p ks) =
          map (mem_reply m) ?batch @ map (mem_reply m) (drop (20 * Suc i) ks)"
    using arg_cong [OF split, of "map (mem_reply m)"] by (simp only: map_append)
  then have "decode_values j (map (mem_reply m) ?batch @ map (mem_reply m) (drop (20 * Suc i) ks)) items
               = Inr xs"
    using Suc.prems(6) by (simp only:)
  then obtain items' where d1: "decode_values j (map (mem_reply m) ?batch) items = Inr items'"
    and d2: "decode_values j (map (mem_reply m) (drop (20 * Suc i) ks)) items' = Inr xs"
    by (auto simp only: decode_values_append split: sum.splits)
  have re: "round_events pat ks i = [Cmd (CmdScan (of_nat ?p) pat 20), Cmd (CmdMGet ?batch)]"
    by (simp add: round_events_def del: of_nat_add of_nat_mult)
  show ?case
  proof (cases "length ks \<le> ?p + 20")
    case True
    then have "drop (20 * Suc i) ks = []" by simp
    with d2 have xs: "items' = xs" by simp
    have r: "[i..<(length ks + 19) div 20] = [i]"
      using rounds_last [OF Suc.prems(4) True] by simp
    show ?thesis
      using True batch scan mget d1 xs r
      by (simp add: issue_def mem_client_def defaultScan_def re
               del: of_nat_add of_nat_mult)
  next
    case False
    then have more: "20 * Suc i < length ks" by simp
    have nz: "(of_nat (?p + 20) :: cursor) \<noteq> 0"
      using more Suc.prems(3) by (intro cursor_nonzero) simp_all
    have r: "[i..<(length ks + 19) div 20] = i # [Suc i..<(length ks + 19) div 20]"
      using rounds_more [of i "length ks"] more by (simp add: upt_conv_Cons)
    have next_round: "20 * Suc i = 20 * i + 20" by simp
    have IH: "services_loop n mem_client j pat (of_nat (20 * Suc i)) items'
                \<lparr>store = m, trace = t @ round_events pat ks i\<rparr> =
              (Some (Inr xs), \<lparr>store = m, trace = (t @ round_events pat ks i)
                   @ concat (map (round_events pat ks) [Suc i..<(length ks + 19) div 20])\<rparr>)"
      using Suc.prems more d2 by (intro Suc.IH) simp_all
    show ?thesis
      using False batch scan mget d1 nz r IH [unfolded next_round]
      by (simp add: issue_def mem_client_def defaultScan_def re
               del: of_nat_add of_nat_mult)
  qed
qed

lemma services_empty_batch:
  assumes "faults m = []" and "matching pat m = []"
  shows "services_loop (Suc n) mem_client j pat 0 items \<lparr>store = m, trace = t\<rparr> =
           (Some (Inr items), \<lparr>store = m, trace = t @ [Cmd (CmdScan 0 pat 20)]\<rparr>)"
  using assms by (simp add: issue_def mem_client_def mem_Scan_def defaultScan_def)

lemma mem_services:
  assumes "faults m = []" and "ks = matching (k @ ''*'') m" and "length ks < 2 ^ 64"
    and "decode_values j (map (mem_reply m) ks) [] = Inr xs"
  shows "services (Suc (length ks div 20)) mem_client j k \<lparr>store = m, trace = t\<rparr> =
           (Some (Inr xs),
            \<lparr>store = m,
             trace = t @ (if ks = [] then [Cmd (CmdScan 0 (k @ ''*'') 20)]
                          else concat (map (round_events (k @ ''*'') ks) [0..<(length ks + 19) div 20]))\<rparr>)
         \<and> xs = map (decoded j) (present (map (mem_reply m) ks))"
proof (cases "ks = []")
  case True
  then show ?thesis
    using assms services_empty_batch [of m "k @ ''*''" 0 j "[]" t]
    by (simp add: services_def)
next
  case False
  have "length ks \<le> 20 * (0 + Suc (length ks div 20))" by simp
  from mem_services_loop [OF assms(1) assms(2) assms(3) _ this, of j "[]" xs t] False assms(4)
  have "services_loop (Suc (length ks div 20)) mem_client j (k @ ''*'') 0 [] \<lparr>store = m, trace = t\<rparr> =
           (Some (Inr xs),
            \<lparr>store = m, trace = t @ concat (map (round_events (k @ ''*'') ks) [0..<(length ks + 19) div 20])\<rparr>)"
    by simp
  moreover have "xs = map (decoded j) (present (map (mem_reply m) ks))"
    using assms(4) by (simp add: decode_values_closed split: option.splits)
  ultimately show ?thesis using False by (simp add: services_def)
qed

text \<open>
  C7. For any store, \<open>services\<close> on a prefix is the walk that starts at cursor 0 and asks
  for twenty keys matching the prefix followed by \<open>*\<close>, ends on an empty batch or on a
  returned cursor 0, followed by the decoding of all that was fetched. On the store in
  memory (without faults, holding values that decode) the call returns the instances of all
  matching keys, however many batches they take, and the commands it sends are, round by
  round, the Scan at cursor 0, 20, 40, ... with that pattern and count 20 and the MGet of
  the at most twenty keys of the batch; with no matching key it is the one Scan at 0.
\<close>

theorem services_walks_every_batch:
  assumes "faults m = []" and "ks = matching (k @ ''*'') m" and "length ks < 2 ^ 64"
    and "decode_values j (map (mem_reply m) ks) [] = Inr xs"
  shows "fst (services n cl j' k' w) =
           (case scan_run n cl (k' @ ''*'') 0 (store w) of
              (res, st) \<Rightarrow>
                (case decode_values j' res [] of
                   Inl e \<Rightarrow> Some (Inl e)
                 | Inr ys \<Rightarrow>
                     (case st of
                        Ended \<Rightarrow> Some (Inr ys)
                      | Failed e \<Rightarrow> Some (Inl e)
                      | Unfinished \<Rightarrow> None)))
         \<and> services (Suc (length ks div 20)) mem_client j k \<lparr>store = m, trace = t\<rparr> =
             (Some (Inr xs),
              \<lparr>store = m,
               trace = t @ (if ks = [] then [Cmd (CmdScan 0 (k @ ''*'') 20)]
                            else concat (map (round_events (k @ ''*'') ks)
                                           [0..<(length ks + 19) div 20]))\<rparr>)
         \<and> xs = map (decoded j) (present (map (mem_reply m) ks))"
  using mem_services [OF assms, of t]
  by (simp add: services_def services_loop_scan_run)

theorem services_walks_every_batch_witness:
  "faults mem25 = []
   \<and> keys25 = matching (''/ms/orders'' @ ''*'') mem25
   \<and> length keys25 = 25
   \<and> decode_values codec25 (map (mem_reply mem25) keys25) [] = Inr instances25
   \<and> length instances25 = 25
   \<and> services 2 mem_client codec25 ''/ms/orders'' \<lparr>store = mem25, trace = []\<rparr>
       = (Some (Inr instances25),
          \<lparr>store = mem25,
           trace = [Cmd (CmdScan 0 ''/ms/orders*'' 20), Cmd (CmdMGet (take 20 keys25)),
                    Cmd (CmdScan 20 ''/ms/orders*'' 20), Cmd (CmdMGet (drop 20 keys25))]\<rparr>)"
proof -
  have h1: "faults mem25 = []" by (simp add: mem25_def)
  have h2: "keys25 = matching (''/ms/orders'' @ ''*'') mem25"
    by (simp add: matching_def mem25_def ids25_def keys25_def)
  have len: "length keys25 = 25" by (simp add: ids25_def keys25_def)
  have h3: "length keys25 < 2 ^ 64" by (simp add: len)
  have h4: "decode_values codec25 (map (mem_reply mem25) keys25) [] = Inr instances25"
    by (simp add: mem25_def ids25_def keys25_def instances25_def mem_reply_def codec25_def
        table_codec_def mk_instance_def)
  have len': "length instances25 = 25" by (simp add: instances25_def ids25_def)
  have fuel: "Suc (length keys25 div 20) = 2" by (simp add: len)
  have rounds: "[0..<(length keys25 + 19) div 20] = [0, Suc 0]" by (simp add: len upt_rec)
  have ne: "keys25 \<noteq> []" using len by auto
  have r0: "round_events ''/ms/orders*'' keys25 0 =
     [Cmd (CmdScan 0 ''/ms/orders*'' 20), Cmd (CmdMGet (take 20 keys25))]"
    by (simp add: round_events_def)
  have r1: "round_events ''/ms/orders*'' keys25 (Suc 0) =
     [Cmd (CmdScan 20 ''/ms/orders*'' 20), Cmd (CmdMGet (drop 20 keys25))]"
    by (simp add: round_events_def len)
  have run: "services 2 mem_client codec25 ''/ms/orders'' \<lparr>store = mem25, trace = []\<rparr>
       = (Some (Inr instances25),
          \<lparr>store = mem25,
           trace = [Cmd (CmdScan 0 ''/ms/orders*'' 20), Cmd (CmdMGet (take 20 keys25)),
                    Cmd (CmdScan 20 ''/ms/orders*'' 20), Cmd (CmdMGet (drop 20 keys25))]\<rparr>)"
    using services_walks_every_batch [OF h1 h2 h3 h4, of _ _ _ _ _ "[]", THEN conjunct2, THEN conjunct1]
    unfolding fuel rounds using ne r0 r1 by simp
  show ?thesis using h1 h2 len h4 len' run by blast
qed

subsection \<open>Patterns without a separator\<close>

lemma glob_star: "glob_match q s \<Longrightarrow> glob_match (CHR ''*'' # q) s"
  by (cases s) simp_all

lemma glob_star_any: "glob_match ''*'' s"
  by (induction s) simp_all

lemma glob_prefix: "glob_match (p @ ''*'') (p @ rest)"
proof (induction p)
  case Nil
  show ?case using glob_star_any by simp
next
  case (Cons c p)
  show ?case
  proof (cases "c = CHR ''*''")
    case True
    have "glob_match (CHR ''*'' # p @ ''*'') (p @ rest)"
      using Cons.IH by (rule glob_star)
    then show ?thesis using True by simp
  next
    case False
    then show ?thesis using Cons.IH by simp
  qed
qed

lemma present_member: "Bulk v \<in> set res \<Longrightarrow> v \<in> set (present res)"
proof (induction res)
  case Nil
  then show ?case by simp
next
  case (Cons r res)
  then show ?case by (cases r) auto
qed

lemma Watch_Inr:
  assumes "Watch r c name = Inr wt"
  shows "key wt = namespace (opts r) @ ''/'' @ name" and "client wt = client r"
  using assms
  by (auto simp: Watch_def newWatcher_def watcherFormat_def NewTicker_def split: if_splits)


text \<open>
  C10. The watcher that \<open>Watch\<close> returns for a service name \<open>short\<close> scans the pattern
  \<open>{namespace}/short*\<close>, with nothing between the name and the star. So when \<open>short\<close> is a
  proper prefix of another name \<open>longer\<close>, a record registered under
  \<open>{namespace}/longer/{id}\<close> is among the keys enumerated, and a successful \<open>Next\<close> on the
  store in memory returns the instance that record decodes to.
\<close>

theorem Watch_enumerates_longer_names:
  assumes "strict_prefix short longer"
    and "client r = mem_client" and "Watch r c short = Inr wt"
    and "faults m = []" and "ks = matching (key wt @ ''*'') m" and "length ks < 2 ^ 64"
    and "map_of (entries m) (keyFormat (namespace (opts r)) longer i) = Some (Some v, d)"
    and "decode_values j (map (mem_reply m) ks) [] = Inr xs"
  shows "key wt @ ''*'' = namespace (opts r) @ ''/'' @ short @ ''*''
       \<and> fst (Next (Suc (length ks div 20)) j wt (Tick ok) \<lparr>store = m, trace = t\<rparr>) = Some (Inr xs)
       \<and> decoded j v \<in> set xs"
proof -
  let ?k = "keyFormat (namespace (opts r)) longer i"
  have key: "key wt = namespace (opts r) @ ''/'' @ short" and cl: "client wt = mem_client"
    using Watch_Inr [OF assms(3)] assms(2) by simp_all
  obtain rest where longer: "longer = short @ rest"
    using assms(1) by (auto simp: strict_prefix_def prefix_def)
  have "?k = (key wt) @ (rest @ ''/'' @ i)"
    by (simp add: keyFormat_def key longer)
  then have glob: "glob_match (key wt @ ''*'') ?k"
    using glob_prefix [of "key wt" "rest @ ''/'' @ i"] by simp
  have "(?k, Some v, d) \<in> set (entries m)"
    using assms(7) by (rule map_of_SomeD)
  then have "?k \<in> fst ` set (entries m)" by force
  with glob have mem: "?k \<in> set ks" by (simp add: assms(5) matching_def)
  have "mem_reply m ?k = Bulk v" by (simp add: mem_reply_def assms(7))
  with mem have "Bulk v \<in> set (map (mem_reply m) ks)" by force
  then have pres: "v \<in> set (present (map (mem_reply m) ks))" by (rule present_member)
  have run: "services (Suc (length ks div 20)) mem_client j (key wt) \<lparr>store = m, trace = t\<rparr> =
           (Some (Inr xs),
            \<lparr>store = m,
             trace = t @ (if ks = [] then [Cmd (CmdScan 0 (key wt @ ''*'') 20)]
                          else concat (map (round_events (key wt @ ''*'') ks) [0..<(length ks + 19) div 20]))\<rparr>)"
    and xs: "xs = map (decoded j) (present (map (mem_reply m) ks))"
    using mem_services [OF assms(4) assms(5) assms(6) assms(8), of t] by simp_all
  have "decoded j v \<in> set xs" using pres by (simp add: xs)
  moreover have "fst (Next (Suc (length ks div 20)) j wt (Tick ok) \<lparr>store = m, trace = t\<rparr>) = Some (Inr xs)"
    by (simp add: Next_def cl run)
  ultimately show ?thesis by (simp add: key)
qed

theorem Watch_enumerates_longer_names_witness:
  "strict_prefix ''orders'' ''orders-v2''
   \<and> client ms_registry = mem_client
   \<and> Watch ms_registry None ''orders'' = Inr orders_watcher
   \<and> faults v2_mem = []
   \<and> [''/ms/orders-v2/i9'', ''/ms/orders/i1''] = matching (key orders_watcher @ ''*'') v2_mem
   \<and> map_of (entries v2_mem) (keyFormat (namespace (opts ms_registry)) ''orders-v2'' ''i9'')
       = Some (Some ''{i9}'', 7 * Second)
   \<and> decode_values v2_codec (map (mem_reply v2_mem) [''/ms/orders-v2/i9'', ''/ms/orders/i1'']) []
       = Inr [mk_instance ''orders-v2'' ''i9'', mk_instance ''orders'' ''i1'']
   \<and> key orders_watcher @ ''*'' = ''/ms/orders*''
   \<and> fst (Next 1 v2_codec orders_watcher (Tick True) \<lparr>store = v2_mem, trace = []\<rparr>)
       = Some (Inr [mk_instance ''orders-v2'' ''i9'', mk_instance ''orders'' ''i1''])
   \<and> decoded v2_codec ''{i9}'' = mk_instance ''orders-v2'' ''i9''"
proof -
  let ?ks = "[''/ms/orders-v2/i9'', ''/ms/orders/i1'']"
  let ?xs = "[mk_instance ''orders-v2'' ''i9'', mk_instance ''orders'' ''i1'']"
  have h1: "strict_prefix ''orders'' ''orders-v2''" by (simp add: strict_prefix_def)
  have h2: "client ms_registry = mem_client" by (simp add: ms_registry_def)
  have h3: "Watch ms_registry None ''orders'' = Inr orders_watcher"
    by (simp add: run_defs orders_watcher_def)
  have h4: "faults v2_mem = []" by (simp add: v2_mem_def)
  have h5: "?ks = matching (key orders_watcher @ ''*'') v2_mem"
    by (simp add: matching_def v2_mem_def orders_watcher_def)
  have h6: "length ?ks < 2 ^ 64" by simp
  have h7: "map_of (entries v2_mem) (keyFormat (namespace (opts ms_registry)) ''orders-v2'' ''i9'')
       = Some (Some ''{i9}'', 7 * Second)"
    by (simp add: v2_mem_def keyFormat_def ms_registry_def)
  have h8: "decode_values v2_codec (map (mem_reply v2_mem) ?ks) [] = Inr ?xs"
    by (simp add: v2_mem_def v2_codec_def mem_reply_def table_codec_def mk_instance_def)
  have d: "decoded v2_codec ''{i9}'' = mk_instance ''orders-v2'' ''i9''"
    by (simp add: decoded_def v2_codec_def table_codec_def mk_instance_def)
  have "key orders_watcher @ ''*'' = ''/ms/orders*''
       \<and> fst (Next 1 v2_codec orders_watcher (Tick True) \<lparr>store = v2_mem, trace = []\<rparr>) = Some (Inr ?xs)"
    using Watch_enumerates_longer_names [OF h1 h2 h3 h4 h5 h6 h7 h8, of True "[]"]
    by (simp add: ms_registry_def)
  with h1 h2 h3 h4 h5 h7 h8 d show ?thesis by blast
qed

end
